theory Spec2Isabelle
  imports Complex_Main "HOL-Library.Word"
begin

unbundle bit_operations_syntax

section \<open>Configuration and token lists (src/src/index.ts, lines 1-63)\<close>

record config =
  ETH_RPC :: string
  ETH_RPC_FALLBACK :: string
  SOL_RPC :: string
  BTC_API :: string
  CACHE_TTL :: nat
  RETRY_ATTEMPTS :: int
  RETRY_DELAY :: nat

definition CONFIG :: config where
  "CONFIG = \<lparr> ETH_RPC = ''https://eth-mainnet.g.alchemy.com/v2/9MBCtERqR47MU430jVMJIGtK_mfVBxwf'',
     ETH_RPC_FALLBACK = ''https://eth.llamarpc.com'',
     SOL_RPC = ''https://api.mainnet-beta.solana.com'',
     BTC_API = ''https://api.blockchair.com/bitcoin/stats'',
     CACHE_TTL = 3600,
     RETRY_ATTEMPTS = 3,
     RETRY_DELAY = 1000 \<rparr>"

record EthToken =
  eth_symbol :: string
  eth_address :: string

record SolToken =
  sol_symbol :: string
  sol_mint :: string

text \<open>The optional fields \<open>address?\<close> and \<open>mint?\<close> of the interface are options.\<close>

record TokenSupply =
  symbol :: string
  "supply" :: string
  address :: "string option"
  mint :: "string option"

definition ethTokens :: "EthToken list" where
  "ethTokens =
    [ \<lparr> eth_symbol = ''wBTC'', eth_address = ''0x2260FAC5E5542a773Aa44fBCfeDf7C193bc2C599'' \<rparr>,
      \<lparr> eth_symbol = ''renBTC'', eth_address = ''0xeb4c2781e4eba804ce9a9803c67d0893436bb27d'' \<rparr>,
      \<lparr> eth_symbol = ''tBTCv1'', eth_address = ''0x8daebade922df735c38c80c7ebd708af50815faa'' \<rparr>,
      \<lparr> eth_symbol = ''tBTCv2'', eth_address = ''0x18084fba666a33d37592fa2633fd49a74dd93a88'' \<rparr>,
      \<lparr> eth_symbol = ''cbBTC'', eth_address = ''0xcbb7c0000ab88b473b1f5afd9ef808440eed33bf'' \<rparr> ]"

definition solTokens :: "SolToken list" where
  "solTokens =
    [ \<lparr> sol_symbol = ''wBTC'', sol_mint = ''3NZ9JMVBmGAqocybic2c7LQCJScmgsAZ6vQqTDzcqmJh'' \<rparr>,
      \<lparr> sol_symbol = ''renBTC'', sol_mint = ''CDJWUqTcYTVAKXAVXoQZFes5JUFc7owSeq7eMQcDSbo5'' \<rparr>,
      \<lparr> sol_symbol = ''pBTC'', sol_mint = ''DYDWu4hE4MN3aH897xQ3sRTs5EAjJDmQsKLNhbpUiKun'' \<rparr>,
      \<lparr> sol_symbol = ''cbBTC'', sol_mint = ''cbbtcf3aa214zXHbiAZQwf4122FBYbraNdFqgw4iMij'' \<rparr>,
      \<lparr> sol_symbol = ''zBTC'', sol_mint = ''zBTCug3er3tLyffELcvDNrKkCymbPWysGcWihESYfLg'' \<rparr>,
      \<lparr> sol_symbol = ''tBTC'', sol_mint = ''6DNSN2BJsaPFdFFc1zP37kkeNe4Usc1Sqkzr9C9vPWcU'' \<rparr> ]"

section \<open>The string operations of the runtime that the utilities call\<close>

text \<open>
  Strings are unbounded character lists: the runtime's limit on the length of a string
  (a \<open>RangeError\<close> of \<open>padStart\<close> for an astronomically large target length) is not
  modelled.
\<close>

definition digit_char :: "nat \<Rightarrow> char" where
  "digit_char n = ''0123456789'' ! n"

text \<open>\<open>BigInt.prototype.toString()\<close>: decimal digits, a leading minus sign when negative.\<close>

fun digits :: "nat \<Rightarrow> string" where
  "digits n = (if n < 10 then [digit_char n] else digits (n div 10) @ [digit_char (n mod 10)])"

declare digits.simps [simp del]

definition toString :: "int \<Rightarrow> string" where
  "toString v = (if v < 0 then CHR ''-'' # digits (nat (- v)) else digits (nat v))"

text \<open>\<open>String.prototype.padStart(targetLength, c)\<close> for a one-character pad string.\<close>

definition padStart :: "string \<Rightarrow> int \<Rightarrow> char \<Rightarrow> string" where
  "padStart s targetLength c = replicate (nat (targetLength - int (length s))) c @ s"

text \<open>
  \<open>String.prototype.slice(start, end)\<close>: a negative index counts from the end, and both
  indices are clamped to the string.
\<close>

definition slice_index :: "string \<Rightarrow> int \<Rightarrow> nat" where
  "slice_index s k =
     (if k < 0 then nat (max (int (length s) + k) 0) else nat (min k (int (length s))))"

definition slice :: "string \<Rightarrow> int \<Rightarrow> int \<Rightarrow> string" where
  "slice s start fin = take (slice_index s fin - slice_index s start) (drop (slice_index s start) s)"

definition sliceFrom :: "string \<Rightarrow> int \<Rightarrow> string" where
  "sliceFrom s start = drop (slice_index s start) s"

text \<open>\<open>s.replace(/0+$/, '')\<close>: the string without its trailing zeros.\<close>

definition stripTrailingZeros :: "string \<Rightarrow> string" where
  "stripTrailingZeros s = rev (dropWhile (\<lambda>c. c = CHR ''0'') (rev s))"

section \<open>Utilities (lines 65-83)\<close>

text \<open>
  \<open>formatUnits(value: bigint, decimals: number)\<close>. \<open>decimals\<close> is an integer here;
  \<open>slice(0, i) || '0'\<close> replaces an empty integer part.
\<close>

definition formatUnits :: "int \<Rightarrow> int \<Rightarrow> string" where
  "formatUnits v decimals =
     (let str = padStart (toString v) (decimals + 1) (CHR ''0'');
          i = int (length str) - decimals;
          intPart = (if slice str 0 i = [] then ''0'' else slice str 0 i);
          fracPart = stripTrailingZeros (sliceFrom str i)
      in if fracPart \<noteq> [] then intPart @ ''.'' @ fracPart else intPart)"

subsection \<open>Numbers\<close>

text \<open>
  A JavaScript number is an IEEE double. The model keeps the mathematical value of a
  finite number as a rational; where the source computes with numbers, the model answers
  only while every value involved is an integer of magnitude at most \<open>2 ^ 53\<close>, where
  double arithmetic is exact (see \<open>exact_double\<close> below).
\<close>

datatype number = NaN | PosInfinity | NegInfinity | Finite rat

















section \<open>The Resilient Fetcher (lines 85-99)\<close>

text \<open>What the source throws, and what the runtime throws under it.\<close>

datatype error =
    RetryAttemptsExhausted
  | HttpError nat
  | FetchRejected
  | JsonError
  | TypeError
  | SyntaxError
  | InvalidBitcoinSupply

text \<open>
  \<open>withRetry(fn, attempts, delay)\<close>. The operation runs on a world \<open>'w\<close> and either
  returns (\<open>Inr\<close>) or throws (\<open>Inl\<close>); \<open>sleep ms\<close> is what awaiting
  \<open>setTimeout(resolve, ms)\<close> does to the world. \<open>attempts\<close> is an integer here, \<open>delay\<close>
  a natural number of milliseconds. The loop variable \<open>i\<close> is the last argument but one.
\<close>

function withRetry_loop ::
  "('w \<Rightarrow> (error + 'a) \<times> 'w) \<Rightarrow> (nat \<Rightarrow> 'w \<Rightarrow> 'w) \<Rightarrow> int \<Rightarrow> nat \<Rightarrow> int \<Rightarrow> 'w \<Rightarrow> (error + 'a) \<times> 'w"
where
  "withRetry_loop fn sleep attempts delay i w =
     (if i < attempts then
        (case fn w of
           (Inr v, w') \<Rightarrow> (Inr v, w')
         | (Inl err, w') \<Rightarrow>
             if i = attempts - 1 then (Inl err, w')
             else withRetry_loop fn sleep attempts delay (i + 1) (sleep (delay * 2 ^ nat i) w'))
      else (Inl RetryAttemptsExhausted, w))"
  by pat_completeness auto
termination
  by (relation "measure (\<lambda>(fn, sleep, attempts, delay, i, w). nat (attempts - i))") auto

declare withRetry_loop.simps [simp del]

definition withRetry ::
  "('w \<Rightarrow> (error + 'a) \<times> 'w) \<Rightarrow> (nat \<Rightarrow> 'w \<Rightarrow> 'w) \<Rightarrow> int \<Rightarrow> nat \<Rightarrow> 'w \<Rightarrow> (error + 'a) \<times> 'w"
where
  "withRetry fn sleep attempts delay w = withRetry_loop fn sleep attempts delay 0 w"

section \<open>The network\<close>

text \<open>
  A parsed JSON body is \<open>Null\<close> or a value, reduced to what the reader reads of it. A
  call of \<open>fetch\<close> is rejected (a network failure, or the abort of the 5000 ms timer), or
  answers with \<open>ok\<close>, a status and a body; the body is \<open>None\<close> when \<open>json()\<close> rejects.
\<close>

datatype 'b json = Null | Value 'b

datatype 'b response = Rejected | Response bool nat "'b json option"

text \<open>
  The \<open>result\<close> field of an \<open>eth_call\<close> reply: falsy (absent, empty), a truthy value on
  which \<open>BigInt\<close> throws, or a value that \<open>BigInt\<close> reads as an integer. \<open>rpc_error\<close>
  says whether the reply's \<open>error\<close> field is truthy.
\<close>

datatype rpc_result = NoResult | BadResult | IntResult int

record rpc_reply =
  rpc_error :: bool
  rpc_result :: rpc_result

text \<open>
  An entry \<open>accounts[idx]\<close> of a \<open>getMultipleAccounts\<close> reply: \<open>acc?.data\<close> is falsy;
  \<open>atob(acc.data[0])\<close> throws; or the bytes that \<open>atob\<close> decodes.
\<close>

datatype account = NoAccount | Undecodable | AccountData "8 word list"

text \<open>
  \<open>res.data?.circulation\<close> of a stats reply: a value whose \<open>typeof\<close> is not \<open>'number'\<close>
  (also when it is missing), or a number. A parsed JSON body holds finite numbers and, for
  a literal too large for a double, an infinity; it never holds \<open>NaN\<close>.
\<close>

datatype circulation = NotNumber | Circulation number

text \<open>
  The runtime under the readers: the effect of a sleep, one \<open>fetch\<close> per kind of request
  (the URL first, then what the request body carries) and the locale formatting of
  \<open>toLocaleString('en-US', { maximumFractionDigits: 0 })\<close>. For \<open>getMultipleAccounts\<close>
  the body is \<open>res.result?.value\<close>: \<open>None\<close> when falsy.
\<close>

record 'w runtime =
  sleep :: "nat \<Rightarrow> 'w \<Rightarrow> 'w"
  fetch_eth_call :: "string \<Rightarrow> string \<Rightarrow> string \<Rightarrow> 'w \<Rightarrow> rpc_reply response \<times> 'w"
  fetch_getMultipleAccounts :: "string \<Rightarrow> string list \<Rightarrow> 'w \<Rightarrow> (account list option) response \<times> 'w"
  fetch_stats :: "string \<Rightarrow> 'w \<Rightarrow> circulation response \<times> 'w"
  toLocaleString :: "number \<Rightarrow> string"

text \<open>\<open>fetch(...).then((r) => r.json())\<close>: the status is not looked at.\<close>

definition json_of :: "'b response \<Rightarrow> error + 'b json" where
  "json_of r =
     (case r of
        Rejected \<Rightarrow> Inl FetchRejected
      | Response ok status body \<Rightarrow> (case body of None \<Rightarrow> Inl JsonError | Some j \<Rightarrow> Inr j))"

text \<open>\<open>if (!resp.ok) throw new Error(`HTTP ${resp.status}`); return resp.json()\<close>.\<close>

definition ok_json_of :: "'b response \<Rightarrow> error + 'b json" where
  "ok_json_of r =
     (case r of
        Rejected \<Rightarrow> Inl FetchRejected
      | Response ok status body \<Rightarrow>
          if \<not> ok then Inl (HttpError status)
          else (case body of None \<Rightarrow> Inl JsonError | Some j \<Rightarrow> Inr j))"

section \<open>Ethereum fetch (lines 101-175)\<close>

definition TOTAL_SUPPLY_SIG :: string where
  "TOTAL_SUPPLY_SIG = ''0x18160ddd''"

definition DECIMALS_SIG :: string where
  "DECIMALS_SIG = ''0x313ce567''"

definition eth_zero :: "EthToken \<Rightarrow> TokenSupply" where
  "eth_zero token =
     \<lparr> symbol = eth_symbol token, supply = ''0'', address = Some (eth_address token), mint = None \<rparr>"

text \<open>
  The \<open>try\<close> block of \<open>fetchSingleSupply\<close>, after both requests were issued, on the two
  outcomes: \<open>Promise.all\<close> rejects when a request does; reading \<open>.error\<close> of \<open>null\<close>
  throws; a truthy \<open>error\<close> returns the zero entry (the warning's object literal reads
  \<open>decimalsRes.error\<close> first); \<open>BigInt\<close> throws on a result it cannot read.
  \<open>Number(BigInt(...))\<close> is the integer itself (exact below \<open>2 ^ 53\<close>).
\<close>

definition singleSupply_body ::
  "EthToken \<Rightarrow> rpc_reply response \<Rightarrow> rpc_reply response \<Rightarrow> error + TokenSupply"
where
  "singleSupply_body token r1 r2 =
     (case json_of r1 of
        Inl e \<Rightarrow> Inl e
      | Inr supplyRes \<Rightarrow>
     (case json_of r2 of
        Inl e \<Rightarrow> Inl e
      | Inr decimalsRes \<Rightarrow>
     (case supplyRes of
        Null \<Rightarrow> Inl TypeError
      | Value s \<Rightarrow>
          if rpc_error s then
            (case decimalsRes of Null \<Rightarrow> Inl TypeError | Value d \<Rightarrow> Inr (eth_zero token))
          else
            (case decimalsRes of
               Null \<Rightarrow> Inl TypeError
             | Value d \<Rightarrow>
                 if rpc_error d then Inr (eth_zero token)
                 else
                   (case rpc_result s of
                      BadResult \<Rightarrow> Inl SyntaxError
                    | NoResult \<Rightarrow>
                        (case rpc_result d of
                           BadResult \<Rightarrow> Inl SyntaxError
                         | NoResult \<Rightarrow> Inr ((eth_zero token)\<lparr> supply := formatUnits 0 8 \<rparr>)
                         | IntResult decimals \<Rightarrow>
                             Inr ((eth_zero token)\<lparr> supply := formatUnits 0 decimals \<rparr>))
                    | IntResult supplyRaw \<Rightarrow>
                        (case rpc_result d of
                           BadResult \<Rightarrow> Inl SyntaxError
                         | NoResult \<Rightarrow> Inr ((eth_zero token)\<lparr> supply := formatUnits supplyRaw 8 \<rparr>)
                         | IntResult decimals \<Rightarrow>
                             Inr ((eth_zero token)\<lparr> supply := formatUnits supplyRaw decimals \<rparr>)))))))"

text \<open>
  \<open>fetchSingleSupply(token, rpcUrl)\<close>: the supply request, then the decimals request,
  are issued; the \<open>catch\<close> turns every failure of the \<open>try\<close> block into the zero entry,
  so the promise never rejects.
\<close>

definition fetchSingleSupply ::
  "('w, 'x) runtime_scheme \<Rightarrow> EthToken \<Rightarrow> string \<Rightarrow> 'w \<Rightarrow> TokenSupply \<times> 'w"
where
  "fetchSingleSupply rt token rpcUrl w =
     (case fetch_eth_call rt rpcUrl (eth_address token) TOTAL_SUPPLY_SIG w of
        (r1, w1) \<Rightarrow>
     (case fetch_eth_call rt rpcUrl (eth_address token) DECIMALS_SIG w1 of
        (r2, w2) \<Rightarrow>
     (case singleSupply_body token r1 r2 of
        Inr t \<Rightarrow> (t, w2)
      | Inl err \<Rightarrow> (eth_zero token, w2))))"

text \<open>
  The callback of \<open>ethTokens.map\<close> in \<open>fetchEthereumSupplies\<close>:
  \<open>withRetry(() => fetchSingleSupply(token, CONFIG.ETH_RPC)).catch(...)\<close>, with the
  default attempts and delay of \<open>withRetry\<close>.
\<close>

definition fetchTokenSupply ::
  "('w, 'x) runtime_scheme \<Rightarrow> config \<Rightarrow> EthToken \<Rightarrow> 'w \<Rightarrow> TokenSupply \<times> 'w"
where
  "fetchTokenSupply rt cfg token w =
     (case withRetry (\<lambda>w0. case fetchSingleSupply rt token (ETH_RPC cfg) w0 of (t, w1) \<Rightarrow> (Inr t, w1))
             (sleep rt) (RETRY_ATTEMPTS cfg) (RETRY_DELAY cfg) w of
        (Inr t, w') \<Rightarrow> (t, w')
      | (Inl err, w') \<Rightarrow> fetchSingleSupply rt token (ETH_RPC_FALLBACK cfg) w')"

text \<open>
  \<open>Promise.all(tokens.map(f))\<close> for callbacks that do not reject: the callbacks start in
  the order of the list, and the results come in that order.
\<close>

fun map_world :: "('a \<Rightarrow> 'w \<Rightarrow> 'b \<times> 'w) \<Rightarrow> 'a list \<Rightarrow> 'w \<Rightarrow> 'b list \<times> 'w" where
  "map_world f [] w = ([], w)"
| "map_world f (x # xs) w =
     (case f x w of (y, w1) \<Rightarrow> (case map_world f xs w1 of (ys, w2) \<Rightarrow> (y # ys, w2)))"

text \<open>
  \<open>fetchEthereumSupplies\<close>, with the configuration and the token list (the constants
  \<open>CONFIG\<close> and \<open>ethTokens\<close> of the source) as arguments. The list \<open>calls\<close> of the
  source is never used.
\<close>

definition fetchEthereumSupplies ::
  "('w, 'x) runtime_scheme \<Rightarrow> config \<Rightarrow> EthToken list \<Rightarrow> 'w \<Rightarrow> TokenSupply list \<times> 'w"
where
  "fetchEthereumSupplies rt cfg tokens w = map_world (fetchTokenSupply rt cfg) tokens w"

section \<open>Solana fetch (lines 177-228)\<close>

definition sol_zero :: "SolToken \<Rightarrow> TokenSupply" where
  "sol_zero token =
     \<lparr> symbol = sol_symbol token, supply = ''0'', address = None, mint = Some (sol_mint token) \<rparr>"

text \<open>The operation given to \<open>withRetry\<close>: one batched request for all mints.\<close>

definition solana_attempt ::
  "('w, 'x) runtime_scheme \<Rightarrow> config \<Rightarrow> SolToken list \<Rightarrow> 'w \<Rightarrow> (error + (account list option) json) \<times> 'w"
where
  "solana_attempt rt cfg tokens w =
     (case fetch_getMultipleAccounts rt (SOL_RPC cfg) (map sol_mint tokens) w of
        (resp, w1) \<Rightarrow> (ok_json_of resp, w1))"

text \<open>\<open>data[k]\<close> on a \<open>Uint8Array\<close>: \<open>undefined\<close> (here \<open>None\<close>) out of range.\<close>

definition byte_at :: "8 word list \<Rightarrow> nat \<Rightarrow> 8 word option" where
  "byte_at data k = (if k < length data then Some (data ! k) else None)"

text \<open>
  \<open>for (let i = 0; i < 8; i++) raw |= BigInt(data[36 + i]) << (8n * BigInt(i))\<close>;
  \<open>BigInt(undefined)\<close> throws a \<open>TypeError\<close>.
\<close>

function read_amount :: "8 word list \<Rightarrow> nat \<Rightarrow> int \<Rightarrow> error + int" where
  "read_amount data i raw =
     (if i < 8 then
        (case byte_at data (36 + i) of
           None \<Rightarrow> Inl TypeError
         | Some b \<Rightarrow> read_amount data (i + 1) (raw OR push_bit (8 * i) (uint b)))
      else Inr raw)"
  by pat_completeness auto
termination
  by (relation "measure (\<lambda>(data, i, raw). 8 - i)") auto

declare read_amount.simps [simp del]

text \<open>\<open>data[44] || 8\<close>: \<open>undefined\<close> and 0 are falsy.\<close>

definition decimals_of :: "8 word list \<Rightarrow> int" where
  "decimals_of data =
     (case byte_at data 44 of None \<Rightarrow> 8 | Some b \<Rightarrow> if b = 0 then 8 else uint b)"

text \<open>\<open>accounts[idx]\<close>: \<open>undefined\<close> beyond the end of the list, so \<open>acc?.data\<close> is falsy.\<close>

definition account_at :: "account list \<Rightarrow> nat \<Rightarrow> account" where
  "account_at accounts idx = (if idx < length accounts then accounts ! idx else NoAccount)"

text \<open>The callback of \<open>solTokens.map((token, idx) => ...)\<close>.\<close>

definition solanaTokenSupply :: "account list \<Rightarrow> SolToken \<Rightarrow> nat \<Rightarrow> TokenSupply" where
  "solanaTokenSupply accounts token idx =
     (case account_at accounts idx of
        NoAccount \<Rightarrow> sol_zero token
      | Undecodable \<Rightarrow> sol_zero token
      | AccountData data \<Rightarrow>
          (case read_amount data 0 0 of
             Inl err \<Rightarrow> sol_zero token
           | Inr raw \<Rightarrow> (sol_zero token)\<lparr> supply := formatUnits raw (decimals_of data) \<rparr>))"

text \<open>
  \<open>fetchSolanaSupplies\<close>, with the configuration and the token list as arguments. The
  \<open>await withRetry(...)\<close> stands outside every \<open>try\<close>, and so does the read of
  \<open>res.result\<close>, which throws on \<open>null\<close>.
\<close>

definition fetchSolanaSupplies ::
  "('w, 'x) runtime_scheme \<Rightarrow> config \<Rightarrow> SolToken list \<Rightarrow> 'w \<Rightarrow> (error + TokenSupply list) \<times> 'w"
where
  "fetchSolanaSupplies rt cfg tokens w =
     (case withRetry (solana_attempt rt cfg tokens) (sleep rt) (RETRY_ATTEMPTS cfg) (RETRY_DELAY cfg) w of
        (Inl err, w') \<Rightarrow> (Inl err, w')
      | (Inr res, w') \<Rightarrow>
          (case res of
             Null \<Rightarrow> (Inl TypeError, w')
           | Value None \<Rightarrow> (Inr (map sol_zero tokens), w')
           | Value (Some accounts) \<Rightarrow>
               (Inr (map (\<lambda>(token, idx). solanaTokenSupply accounts token idx)
                      (zip tokens [0 ..< length tokens])), w')))"

section \<open>Bitcoin fetch (lines 230-258)\<close>

definition bitcoin_attempt ::
  "('w, 'x) runtime_scheme \<Rightarrow> config \<Rightarrow> 'w \<Rightarrow> (error + circulation json) \<times> 'w"
where
  "bitcoin_attempt rt cfg w =
     (case fetch_stats rt (BTC_API cfg) w of (resp, w1) \<Rightarrow> (ok_json_of resp, w1))"

text \<open>\<open>x < 0\<close> and \<open>x > 21_000_000 * 10 ** 8\<close> on a number; both are false on \<open>NaN\<close>.\<close>

definition number_negative :: "number \<Rightarrow> bool" where
  "number_negative x =
     (case x of NaN \<Rightarrow> False | PosInfinity \<Rightarrow> False | NegInfinity \<Rightarrow> True | Finite q \<Rightarrow> q < 0)"

definition exceeds_max_supply :: "number \<Rightarrow> bool" where
  "exceeds_max_supply x =
     (case x of NaN \<Rightarrow> False | PosInfinity \<Rightarrow> True | NegInfinity \<Rightarrow> False
      | Finite q \<Rightarrow> q > 21000000 * 10 ^ 8)"

text \<open>
  \<open>supplySatoshis / 10 ** 8\<close>, as the exact quotient (the runtime rounds it to a double),
  given to \<open>formatNumber\<close>, which is \<open>toLocaleString\<close> of the runtime.
\<close>

definition to_btc :: "number \<Rightarrow> number" where
  "to_btc x = (case x of Finite q \<Rightarrow> Finite (q / 10 ^ 8) | NaN \<Rightarrow> NaN
               | PosInfinity \<Rightarrow> PosInfinity | NegInfinity \<Rightarrow> NegInfinity)"

definition formatNumber :: "('w, 'x) runtime_scheme \<Rightarrow> number \<Rightarrow> string" where
  "formatNumber rt x = toLocaleString rt x"

text \<open>The \<open>try\<close> block of \<open>fetchBitcoinSupply\<close>.\<close>

definition bitcoinSupply_body ::
  "('w, 'x) runtime_scheme \<Rightarrow> config \<Rightarrow> 'w \<Rightarrow> (error + string) \<times> 'w"
where
  "bitcoinSupply_body rt cfg w =
     (case withRetry (bitcoin_attempt rt cfg) (sleep rt) (RETRY_ATTEMPTS cfg) (RETRY_DELAY cfg) w of
        (Inl err, w') \<Rightarrow> (Inl err, w')
      | (Inr res, w') \<Rightarrow>
          (case res of
             Null \<Rightarrow> (Inl TypeError, w')
           | Value NotNumber \<Rightarrow> (Inl InvalidBitcoinSupply, w')
           | Value (Circulation supplySatoshis) \<Rightarrow>
               if number_negative supplySatoshis \<or> exceeds_max_supply supplySatoshis
               then (Inl InvalidBitcoinSupply, w')
               else (Inr (formatNumber rt (to_btc supplySatoshis)), w')))"

text \<open>
  \<open>fetchBitcoinSupply\<close>: the result is \<open>Inr\<close> of the string the promise resolves to; the
  function has no path that throws, which the sum type keeps visible.
\<close>

definition fetchBitcoinSupply ::
  "('w, 'x) runtime_scheme \<Rightarrow> config \<Rightarrow> 'w \<Rightarrow> (error + string) \<times> 'w"
where
  "fetchBitcoinSupply rt cfg w =
     (case bitcoinSupply_body rt cfg w of
        (Inr s, w') \<Rightarrow> (Inr s, w')
      | (Inl err, w') \<Rightarrow> (Inr ''0'', w'))"

section \<open>The totals of the handler (lines 497-499)\<close>



section \<open>Notions of the specification\<close>


text \<open>The unsigned integer that a list of bytes is in little-endian order.\<close>

definition le_bytes_value :: "8 word list \<Rightarrow> int" where
  "le_bytes_value bs = foldr (\<lambda>b acc. uint b + 256 * acc) bs 0"

text \<open>The amount field of an account blob: the 8 bytes at offset 36.\<close>

definition amount_field :: "8 word list \<Rightarrow> int" where
  "amount_field data = le_bytes_value (take 8 (drop 36 data))"

subsection \<open>Observing a run\<close>

text \<open>
  A world that counts the calls of an operation and records every sleep, around the world
  the operation itself runs on.
\<close>

record 'w probe =
  inner :: 'w
  calls :: nat
  slept :: "nat list"

definition probe_start :: "'w \<Rightarrow> 'w probe" where
  "probe_start w = \<lparr> inner = w, calls = 0, slept = [] \<rparr>"

definition probe_op :: "('w \<Rightarrow> (error + 'a) \<times> 'w) \<Rightarrow> 'w probe \<Rightarrow> (error + 'a) \<times> 'w probe" where
  "probe_op fn p = (case fn (inner p) of (r, w') \<Rightarrow> (r, p\<lparr> inner := w', calls := calls p + 1 \<rparr>))"

definition probe_sleep :: "nat \<Rightarrow> 'w probe \<Rightarrow> 'w probe" where
  "probe_sleep ms p = p\<lparr> slept := slept p @ [ms] \<rparr>"

text \<open>An operation on a counter that fails with HTTP 500 on its first \<open>k\<close> calls.\<close>

definition fails_first :: "nat \<Rightarrow> nat \<Rightarrow> (error + nat) \<times> nat" where
  "fails_first k n = (if n < k then Inl (HttpError 500) else Inr n, n + 1)"

subsection \<open>Concrete networks\<close>

text \<open>
  The world of the concrete networks: the URLs requested so far and the sleeps so far.
  \<open>scripted\<close> builds a runtime from what each kind of request answers.
\<close>

record world =
  requested :: "string list"
  sleeps :: "nat list"

definition start :: world where
  "start = \<lparr> requested = [], sleeps = [] \<rparr>"

definition scripted ::
  "(string \<Rightarrow> string \<Rightarrow> string \<Rightarrow> rpc_reply response) \<Rightarrow> (account list option) response \<Rightarrow>
   circulation response \<Rightarrow> world runtime"
where
  "scripted eth sol btc =
     \<lparr> sleep = (\<lambda>ms w. w\<lparr> sleeps := sleeps w @ [ms] \<rparr>),
       fetch_eth_call = (\<lambda>url to dat w. (eth url to dat, w\<lparr> requested := requested w @ [url] \<rparr>)),
       fetch_getMultipleAccounts = (\<lambda>url mints w. (sol, w\<lparr> requested := requested w @ [url] \<rparr>)),
       fetch_stats = (\<lambda>url w. (btc, w\<lparr> requested := requested w @ [url] \<rparr>)),
       toLocaleString = (\<lambda>x. ''?'') \<rparr>"

text \<open>An \<open>eth_call\<close> endpoint that answers total supply \<open>s\<close> and \<open>d\<close> decimals.\<close>

definition eth_answers :: "int \<Rightarrow> int \<Rightarrow> string \<Rightarrow> rpc_reply response" where
  "eth_answers s d dat =
     Response True 200 (Some (Value \<lparr> rpc_error = False,
        rpc_result = IntResult (if dat = TOTAL_SUPPLY_SIG then s else d) \<rparr>))"

text \<open>
  The primary endpoint rejects every request; the fallback answers total supply
  150000000 and 8 decimals.
\<close>

definition primary_down :: "string \<Rightarrow> string \<Rightarrow> string \<Rightarrow> rpc_reply response" where
  "primary_down url to dat = (if url = ETH_RPC_FALLBACK CONFIG then eth_answers 150000000 8 dat else Rejected)"

text \<open>
  A mint account of 82 bytes: 36 bytes, the 8 amount bytes, the decimals byte, 37 bytes.
\<close>

definition mint_blob :: "8 word list \<Rightarrow> 8 word \<Rightarrow> 8 word list" where
  "mint_blob amount decimals = replicate 36 0 @ amount @ [decimals] @ replicate 37 0"

text \<open>An account holding the amount 5000000000 (\<open>0x12A05F200\<close>) with 8 decimals.\<close>

definition fifty_btc :: account where
  "fifty_btc = AccountData (mint_blob [0, 242, 5, 42, 1, 0, 0, 0] 8)"

definition one_missing :: "account list" where
  "one_missing = [fifty_btc, fifty_btc, NoAccount, fifty_btc, fifty_btc, fifty_btc]"

definition answers :: "'b \<Rightarrow> 'b response" where
  "answers b = Response True 200 (Some (Value b))"

section \<open>Decimal digits\<close>



















section \<open>The Unit Converter\<close>
















lemmas formatUnits_eval = formatUnits_def padStart_def toString_def digits.simps digit_char_def
  slice_def sliceFrom_def slice_index_def stripTrailingZeros_def Let_def





section \<open>The amount field\<close>

lemma or_push_bit_add:
  fixes a b :: int
  assumes "0 \<le> a" "a < 2 ^ n"
  shows "a OR push_bit n b = a + push_bit n b"
proof -
  have a: "take_bit n a = a"
    using assms by (simp add: take_bit_int_eq_self)
  have "take_bit n a + push_bit n b = take_bit n a OR push_bit n b"
    by (rule disjunctive_add) (auto simp: bit_simps)
  then show ?thesis
    by (simp add: a)
qed

lemma le_bytes_value_snoc:
  "le_bytes_value (bs @ [b]) = le_bytes_value bs + uint b * 256 ^ length bs"
  by (induction bs) (simp_all add: le_bytes_value_def algebra_simps)

lemma le_bytes_value_bounds: "0 \<le> le_bytes_value bs \<and> le_bytes_value bs < 256 ^ length bs"
proof (induction bs)
  case Nil
  show ?case by (simp add: le_bytes_value_def)
next
  case (Cons b bs)
  have v: "le_bytes_value (b # bs) = uint b + 256 * le_bytes_value bs"
    by (simp add: le_bytes_value_def)
  have b: "0 \<le> uint b" "uint b < 256"
    using uint_bounded [of b] by simp_all
  from Cons have "le_bytes_value bs + 1 \<le> 256 ^ length bs" by simp
  then have "256 * (le_bytes_value bs + 1) \<le> 256 * 256 ^ length bs"
    by (simp only: mult_le_cancel_left_pos)
  with b Cons show ?case
    unfolding v by (simp add: algebra_simps)
qed

lemma read_amount_from:
  assumes "44 \<le> length data" "i \<le> 8"
  shows "read_amount data i (le_bytes_value (take i (drop 36 data))) = Inr (amount_field data)"
  using assms
proof (induction "8 - i" arbitrary: i)
  case 0
  then have "i = 8" by simp
  then show ?case
    by (subst read_amount.simps) (simp add: amount_field_def)
next
  case (Suc k)
  then have i: "i < 8" by simp
  let ?bs = "take i (drop 36 data)"
  have len: "length ?bs = i"
    using Suc.prems i by simp
  have nth: "byte_at data (36 + i) = Some (data ! (36 + i))"
    using Suc.prems i by (simp add: byte_at_def)
  have next_bs: "take (i + 1) (drop 36 data) = ?bs @ [data ! (36 + i)]"
    using Suc.prems i by (simp add: take_Suc_conv_app_nth)
  have bnd: "0 \<le> le_bytes_value ?bs" "le_bytes_value ?bs < 2 ^ (8 * i)"
    using le_bytes_value_bounds [of ?bs] len by (simp_all add: power_mult)
  have "le_bytes_value ?bs OR push_bit (8 * i) (uint (data ! (36 + i)))
          = le_bytes_value ?bs + push_bit (8 * i) (uint (data ! (36 + i)))"
    using bnd by (rule or_push_bit_add)
  also have "\<dots> = le_bytes_value (take (i + 1) (drop 36 data))"
    unfolding next_bs le_bytes_value_snoc len by (simp add: push_bit_eq_mult power_mult)
  finally have step: "le_bytes_value ?bs OR push_bit (8 * i) (uint (data ! (36 + i)))
          = le_bytes_value (take (i + 1) (drop 36 data))" .
  have "k = 8 - (i + 1)" using Suc.hyps(2) by simp
  from Suc.hyps(1) [OF this Suc.prems(1)] i
  have "read_amount data (i + 1) (le_bytes_value (take (i + 1) (drop 36 data))) = Inr (amount_field data)"
    by simp
  with i nth step show ?case
    by (subst read_amount.simps) simp
qed

lemma read_amount_ok:
  "44 \<le> length data \<Longrightarrow> read_amount data 0 0 = Inr (amount_field data)"
  using read_amount_from [of data 0] by (simp add: le_bytes_value_def)

section \<open>The Resilient Fetcher\<close>

lemma withRetry_loop_exhausted:
  "\<not> i < attempts \<Longrightarrow> withRetry_loop fn sl attempts delay i w = (Inl RetryAttemptsExhausted, w)"
  by (subst withRetry_loop.simps) simp

lemma withRetry_loop_success:
  "i < attempts \<Longrightarrow> fn w = (Inr v, w') \<Longrightarrow> withRetry_loop fn sl attempts delay i w = (Inr v, w')"
  by (subst withRetry_loop.simps) simp

lemma withRetry_loop_last_failure:
  "i = attempts - 1 \<Longrightarrow> fn w = (Inl e, w') \<Longrightarrow> withRetry_loop fn sl attempts delay i w = (Inl e, w')"
  by (subst withRetry_loop.simps) simp

lemma withRetry_loop_retry:
  "i < attempts - 1 \<Longrightarrow> fn w = (Inl e, w') \<Longrightarrow>
     withRetry_loop fn sl attempts delay i w =
       withRetry_loop fn sl attempts delay (i + 1) (sl (delay * 2 ^ nat i) w')"
  by (subst withRetry_loop.simps) simp

lemma probe_op_step:
  "fn w = (r, w') \<Longrightarrow> probe_op fn \<lparr> inner = w, calls = c, slept = s \<rparr> = (r, \<lparr> inner = w', calls = c + 1, slept = s \<rparr>)"
  by (simp add: probe_op_def)

lemma probe_sleep_step:
  "probe_sleep ms \<lparr> inner = w, calls = c, slept = s \<rparr> = \<lparr> inner = w, calls = c, slept = s @ [ms] \<rparr>"
  by (simp add: probe_sleep_def)

lemma withRetry_two_failures:
  assumes "fn w0 = (Inl e1, w1)" and "fn w1 = (Inl e2, w2)" and "fn w2 = (r, w3)"
  shows "withRetry (probe_op fn) probe_sleep 3 delay (probe_start w0) =
           (r, \<lparr> inner = w3, calls = 3, slept = [delay * 2 ^ 0, delay * 2 ^ 1] \<rparr>)"
  using assms
  by (cases r)
    (simp_all add: withRetry_def probe_start_def withRetry_loop.simps probe_op_def probe_sleep_def)

text \<open>
  Claim C4. With 3 attempts, an operation that fails twice and then succeeds with \<open>v\<close>
  makes \<open>withRetry\<close> return \<open>v\<close> after exactly 3 calls and exactly 2 sleeps; an operation
  that fails three times makes it throw the failure of the third call after exactly 3
  calls. In both runs the sleeps are \<open>delay * 2 ^ 0\<close> and \<open>delay * 2 ^ 1\<close>, one before
  each retry, \<open>delay * (1 + 2)\<close> in all.
\<close>

theorem withRetry_three_attempts:
  assumes "fn w0 = (Inl e1, w1)" and "fn w1 = (Inl e2, w2)"
  shows "(fn w2 = (Inr v, w3) \<longrightarrow>
            withRetry (probe_op fn) probe_sleep 3 delay (probe_start w0) =
              (Inr v, \<lparr> inner = w3, calls = 3, slept = [delay * 2 ^ 0, delay * 2 ^ 1] \<rparr>))
       \<and> (fn w2 = (Inl e3, w3) \<longrightarrow>
            withRetry (probe_op fn) probe_sleep 3 delay (probe_start w0) =
              (Inl e3, \<lparr> inner = w3, calls = 3, slept = [delay * 2 ^ 0, delay * 2 ^ 1] \<rparr>))
       \<and> sum_list [delay * 2 ^ 0, delay * 2 ^ 1] = delay * (1 + 2)"
  using withRetry_two_failures [OF assms] by simp

theorem withRetry_three_attempts_witness:
  "withRetry (probe_op (fails_first 2)) probe_sleep 3 1000 (probe_start 0) =
     (Inr 2, \<lparr> inner = 3, calls = 3, slept = [1000, 2000] \<rparr>)
   \<and> withRetry (probe_op (fails_first 3)) probe_sleep 3 1000 (probe_start 0) =
     (Inl (HttpError 500), \<lparr> inner = 3, calls = 3, slept = [1000, 2000] \<rparr>)"
proof -
  have a: "fails_first 2 0 = (Inl (HttpError 500), 1)" "fails_first 2 1 = (Inl (HttpError 500), 2)"
    "fails_first 2 2 = (Inr 2, 3)"
    by (simp_all add: fails_first_def)
  have b: "fails_first 3 0 = (Inl (HttpError 500), 1)" "fails_first 3 1 = (Inl (HttpError 500), 2)"
    "fails_first 3 2 = (Inl (HttpError 500), 3)"
    by (simp_all add: fails_first_def)
  from withRetry_three_attempts [where fn = "fails_first 2" and ?w0.0 = 0 and delay = 1000 and v = 2 and ?w3.0 = 3, OF a(1,2)] a(3)
  have "withRetry (probe_op (fails_first 2)) probe_sleep 3 1000 (probe_start 0) =
     (Inr 2, \<lparr> inner = 3, calls = 3, slept = [1000, 2000] \<rparr>)"
    by simp
  moreover from withRetry_three_attempts [where fn = "fails_first 3" and ?w0.0 = 0 and delay = 1000 and ?e3.0 = "HttpError 500" and ?w3.0 = 3, OF b(1,2)] b(3)
  have "withRetry (probe_op (fails_first 3)) probe_sleep 3 1000 (probe_start 0) =
     (Inl (HttpError 500), \<lparr> inner = 3, calls = 3, slept = [1000, 2000] \<rparr>)"
    by simp
  ultimately show ?thesis by simp
qed

text \<open>
  Claim C10. Called with \<open>attempts \<le> 0\<close>, \<open>withRetry\<close> throws the error
  \<open>Retry attempts exhausted\<close> and leaves the world as it was; observed, the operation is
  called 0 times and there is no sleep.
\<close>

theorem withRetry_no_attempts:
  assumes "attempts \<le> 0"
  shows "withRetry fn sl attempts delay w = (Inl RetryAttemptsExhausted, w)
       \<and> withRetry (probe_op fn) probe_sleep attempts delay (probe_start w) =
           (Inl RetryAttemptsExhausted, \<lparr> inner = w, calls = 0, slept = [] \<rparr>)"
  using assms by (simp add: withRetry_def withRetry_loop_exhausted probe_start_def)

theorem withRetry_no_attempts_witness:
  "withRetry (fails_first 0) (\<lambda>ms n. n) 0 1000 0 = (Inl RetryAttemptsExhausted, 0)
   \<and> withRetry (probe_op (fails_first 0)) probe_sleep (- 1) 1000 (probe_start 0) =
        (Inl RetryAttemptsExhausted, \<lparr> inner = 0, calls = 0, slept = [] \<rparr>)
   \<and> fails_first 0 0 = (Inr 0, 1)"
proof -
  have "(0::int) \<le> 0" and "(- 1 :: int) \<le> 0" by simp_all
  from withRetry_no_attempts [OF this(1), where fn = "fails_first 0" and sl = "\<lambda>ms n. n" and delay = 1000 and w = 0]
    withRetry_no_attempts [OF this(2), where fn = "fails_first 0" and sl = "\<lambda>ms n. n" and delay = 1000 and w = 0]
  show ?thesis by (simp add: fails_first_def)
qed

section \<open>The Ethereum reader\<close>

lemma singleSupply_body_entry:
  "singleSupply_body token r1 r2 = Inr t \<Longrightarrow> t\<lparr> supply := ''0'' \<rparr> = eth_zero token"
  by (auto simp: singleSupply_body_def eth_zero_def
      split: sum.splits json.splits rpc_result.splits if_splits)

lemma fetchSingleSupply_entry:
  "(fst (fetchSingleSupply rt token url w))\<lparr> supply := ''0'' \<rparr> = eth_zero token"
  by (auto simp: fetchSingleSupply_def eth_zero_def dest: singleSupply_body_entry
      split: prod.splits sum.splits)

lemma withRetry_first_success:
  "0 < attempts \<Longrightarrow> fn w = (Inr v, w') \<Longrightarrow> withRetry fn sl attempts delay w = (Inr v, w')"
  by (simp add: withRetry_def withRetry_loop_success)

text \<open>
  The operation that \<open>fetchEthereumSupplies\<close> gives to \<open>withRetry\<close> never throws, so
  with a positive number of attempts the first call returns and the \<open>catch\<close> with the
  fallback endpoint is never entered.
\<close>

lemma fetchTokenSupply_primary_only:
  "0 < RETRY_ATTEMPTS cfg \<Longrightarrow>
     fetchTokenSupply rt cfg token w = fetchSingleSupply rt token (ETH_RPC cfg) w"
proof -
  assume pos: "0 < RETRY_ATTEMPTS cfg"
  obtain t w1 where f: "fetchSingleSupply rt token (ETH_RPC cfg) w = (t, w1)"
    by (cases "fetchSingleSupply rt token (ETH_RPC cfg) w")
  let ?op = "\<lambda>w0. case fetchSingleSupply rt token (ETH_RPC cfg) w0 of (t, w1) \<Rightarrow> (Inr t, w1)"
  have "?op w = (Inr t, w1)"
    by (simp add: f)
  from withRetry_first_success [OF pos, where fn = ?op, OF this]
  show ?thesis
    by (simp add: fetchTokenSupply_def f)
qed

lemma fetchTokenSupply_no_attempts:
  "RETRY_ATTEMPTS cfg \<le> 0 \<Longrightarrow>
     fetchTokenSupply rt cfg token w = fetchSingleSupply rt token (ETH_RPC_FALLBACK cfg) w"
  by (simp add: fetchTokenSupply_def withRetry_def withRetry_loop_exhausted)

lemma fetchTokenSupply_entry:
  "(fst (fetchTokenSupply rt cfg token w))\<lparr> supply := ''0'' \<rparr> = eth_zero token"
proof (cases "0 < RETRY_ATTEMPTS cfg")
  case True
  then show ?thesis
    by (simp only: fetchTokenSupply_primary_only fetchSingleSupply_entry)
next
  case False
  then have "RETRY_ATTEMPTS cfg \<le> 0" by simp
  then show ?thesis
    by (simp only: fetchTokenSupply_no_attempts fetchSingleSupply_entry)
qed

lemma map_world_map:
  assumes "\<And>x w. g (fst (f x w)) = h x"
  shows "map g (fst (map_world f xs w)) = map h xs"
proof (induction xs arbitrary: w)
  case Nil
  show ?case by simp
next
  case (Cons x xs)
  obtain y w1 where y: "f x w = (y, w1)" by (cases "f x w")
  obtain ys w2 where ys: "map_world f xs w1 = (ys, w2)" by (cases "map_world f xs w1")
  from assms [of x w] y have "g y = h x" by simp
  moreover from Cons [of w1] ys have "map g ys = map h xs" by simp
  ultimately show ?case by (simp add: y ys)
qed

lemma fetchEthereumSupplies_entries:
  "map (\<lambda>t. t\<lparr> supply := ''0'' \<rparr>) (fst (fetchEthereumSupplies rt cfg tokens w)) = map eth_zero tokens"
  unfolding fetchEthereumSupplies_def
  by (rule map_world_map) (rule fetchTokenSupply_entry)

section \<open>The Solana reader\<close>

lemma solanaTokenSupply_entry:
  "(solanaTokenSupply accounts token idx)\<lparr> supply := ''0'' \<rparr> = sol_zero token"
  by (simp add: solanaTokenSupply_def sol_zero_def split: account.splits sum.splits)

lemma solana_decoded_entries:
  "map (\<lambda>t. t\<lparr> supply := ''0'' \<rparr>)
     (map (\<lambda>(token, idx). solanaTokenSupply accounts token idx) (zip tokens [0 ..< length tokens]))
   = map sol_zero tokens"
proof -
  let ?ns = "[0 ..< length tokens]"
  have "map (\<lambda>t. t\<lparr> supply := ''0'' \<rparr>)
     (map (\<lambda>(token, idx). solanaTokenSupply accounts token idx) (zip tokens ?ns))
     = map (\<lambda>p. sol_zero (fst p)) (zip tokens ?ns)"
    by (simp add: solanaTokenSupply_entry split_def comp_def)
  also have "\<dots> = map sol_zero (map fst (zip tokens ?ns))"
    by (simp only: map_map comp_def)
  also have "map fst (zip tokens ?ns) = tokens"
    by (rule map_fst_zip) simp
  finally show ?thesis .
qed

lemma sol_zero_entries:
  "map (\<lambda>t. t\<lparr> supply := ''0'' \<rparr>) (map sol_zero tokens) = map sol_zero tokens"
  by (simp add: sol_zero_def)

lemma fetchSolanaSupplies_cases:
  obtains (threw) e w' where "fetchSolanaSupplies rt cfg tokens w = (Inl e, w')"
  | (no_value) w' where "fetchSolanaSupplies rt cfg tokens w = (Inr (map sol_zero tokens), w')"
  | (decoded) accounts w' where
      "withRetry (solana_attempt rt cfg tokens) (sleep rt) (RETRY_ATTEMPTS cfg) (RETRY_DELAY cfg) w
         = (Inr (Value (Some accounts)), w')"
      "fetchSolanaSupplies rt cfg tokens w =
         (Inr (map (\<lambda>(token, idx). solanaTokenSupply accounts token idx)
                (zip tokens [0 ..< length tokens])), w')"
proof -
  obtain r w' where r: "withRetry (solana_attempt rt cfg tokens) (sleep rt) (RETRY_ATTEMPTS cfg)
      (RETRY_DELAY cfg) w = (r, w')"
    by (cases "withRetry (solana_attempt rt cfg tokens) (sleep rt) (RETRY_ATTEMPTS cfg)
      (RETRY_DELAY cfg) w")
  show thesis
  proof (cases r)
    case (Inl e)
    with r have "fetchSolanaSupplies rt cfg tokens w = (Inl e, w')"
      by (simp add: fetchSolanaSupplies_def)
    then show ?thesis by (rule threw)
  next
    case (Inr res)
    show ?thesis
    proof (cases res)
      case Null
      with r Inr have "fetchSolanaSupplies rt cfg tokens w = (Inl TypeError, w')"
        by (simp add: fetchSolanaSupplies_def)
      then show ?thesis by (rule threw)
    next
      case (Value v)
      show ?thesis
      proof (cases v)
        case None
        with r Inr Value have "fetchSolanaSupplies rt cfg tokens w = (Inr (map sol_zero tokens), w')"
          by (simp add: fetchSolanaSupplies_def)
        then show ?thesis by (rule no_value)
      next
        case (Some accounts)
        with r Inr Value show ?thesis
          by (intro decoded [of accounts w']) (simp_all add: fetchSolanaSupplies_def)
      qed
    qed
  qed
qed

lemma fetchSolanaSupplies_entries:
  assumes "fst (fetchSolanaSupplies rt cfg tokens w) = Inr out"
  shows "map (\<lambda>t. t\<lparr> supply := ''0'' \<rparr>) out = map sol_zero tokens"
proof (cases rule: fetchSolanaSupplies_cases [of rt cfg tokens w])
  case (threw e w')
  with assms show ?thesis by simp
next
  case (no_value w')
  with assms have "out = map sol_zero tokens" by simp
  then show ?thesis by (simp only: sol_zero_entries)
next
  case (decoded accounts w')
  with assms have "out = map (\<lambda>(token, idx). solanaTokenSupply accounts token idx)
                (zip tokens [0 ..< length tokens])" by simp
  then show ?thesis by (simp only: solana_decoded_entries)
qed

text \<open>
  Claim C5. The Ethereum reader always returns a list: each entry, with its supply set to
  \<open>0\<close>, is the zero entry of the configured token at the same index, so the list has the
  length and the order of the configuration and each entry its token's symbol and
  address. The same holds of every list the Solana reader returns, with the mint for the
  address. A failed token's entry is the zero entry itself.
\<close>

theorem readers_keep_positions:
  "map (\<lambda>t. t\<lparr> supply := ''0'' \<rparr>) (fst (fetchEthereumSupplies rt cfg tokens w)) = map eth_zero tokens
   \<and> length (fst (fetchEthereumSupplies rt cfg tokens w)) = length tokens
   \<and> map symbol (fst (fetchEthereumSupplies rt cfg tokens w)) = map eth_symbol tokens
   \<and> map address (fst (fetchEthereumSupplies rt cfg tokens w)) = map (\<lambda>t. Some (eth_address t)) tokens
   \<and> (\<forall>out. fst (fetchSolanaSupplies rt cfg stokens w) = Inr out \<longrightarrow>
          map (\<lambda>t. t\<lparr> supply := ''0'' \<rparr>) out = map sol_zero stokens
        \<and> length out = length stokens
        \<and> map symbol out = map sol_symbol stokens
        \<and> map mint out = map (\<lambda>t. Some (sol_mint t)) stokens)"
proof -
  let ?z = "\<lambda>t :: TokenSupply. t\<lparr> supply := ''0'' \<rparr>"
  have shape: "length out = length ts \<and> map symbol out = map symbol ts
       \<and> map address out = map address ts \<and> map mint out = map mint ts"
    if "map ?z out = ts" for out ts :: "TokenSupply list"
  proof -
    have "length (map ?z out) = length ts" "map symbol (map ?z out) = map symbol ts"
      "map address (map ?z out) = map address ts" "map mint (map ?z out) = map mint ts"
      using that by simp_all
    then show ?thesis by (simp add: comp_def)
  qed
  have e: "map ?z (fst (fetchEthereumSupplies rt cfg tokens w)) = map eth_zero tokens"
    by (rule fetchEthereumSupplies_entries)
  have s: "map ?z out = map sol_zero stokens"
    if "fst (fetchSolanaSupplies rt cfg stokens w) = Inr out" for out
    using that by (rule fetchSolanaSupplies_entries)
  from shape [OF e] shape [OF s] e s show ?thesis
    by (simp add: comp_def eth_zero_def sol_zero_def)
qed

lemma solana_first_answer:
  assumes "0 < RETRY_ATTEMPTS cfg"
    and "fetch_getMultipleAccounts rt (SOL_RPC cfg) (map sol_mint tokens) w =
           (Response True st (Some (Value (Some accounts))), w')"
  shows "fetchSolanaSupplies rt cfg tokens w =
           (Inr (map (\<lambda>(token, idx). solanaTokenSupply accounts token idx)
                  (zip tokens [0 ..< length tokens])), w')"
proof -
  have "solana_attempt rt cfg tokens w = (Inr (Value (Some accounts)), w')"
    by (simp add: solana_attempt_def assms(2) ok_json_of_def)
  from withRetry_first_success [OF assms(1), where fn = "solana_attempt rt cfg tokens", OF this]
  show ?thesis
    by (simp add: fetchSolanaSupplies_def)
qed


lemma decimals_of_byte:
  "45 \<le> length data \<Longrightarrow> decimals_of data = (if data ! 44 = 0 then 8 else uint (data ! 44))"
  by (simp add: decimals_of_def byte_at_def)




lemma mint_blob_length: "length a = 8 \<Longrightarrow> length (mint_blob a d) = 82"
  by (simp add: mint_blob_def)

lemma mint_blob_decimals: "length a = 8 \<Longrightarrow> mint_blob a d ! 44 = d"
  by (simp add: mint_blob_def nth_append)

lemma mint_blob_amount: "length a = 8 \<Longrightarrow> amount_field (mint_blob a d) = le_bytes_value a"
  by (simp add: amount_field_def mint_blob_def)



lemma replicate_numeral: "replicate (numeral k) x = x # replicate (pred_numeral k) x"
  by (simp add: numeral_eq_Suc)

lemma attempts_CONFIG: "0 < RETRY_ATTEMPTS CONFIG"
  by (simp add: CONFIG_def)

lemmas eth_eval = fetchEthereumSupplies_def fetchSingleSupply_def singleSupply_body_def
  json_of_def eth_zero_def scripted_def primary_down_def eth_answers_def start_def
  TOTAL_SUPPLY_SIG_def DECIMALS_SIG_def

section \<open>The readers on concrete networks\<close>

text \<open>
  Claim C1, on the code. The primary endpoint rejects every request and the fallback
  would answer total supply 150000000 with 8 decimals, which \<open>fetchSingleSupply\<close> on
  the fallback reads as \<open>1.5\<close>. \<open>fetchEthereumSupplies\<close> returns supply \<open>0\<close> for all five
  tokens and requests the primary endpoint ten times and the fallback never:
  \<open>fetchSingleSupply\<close> catches every failure itself, so \<open>withRetry\<close> sees its first call
  return and the \<open>catch\<close> holding the fallback is not reached.
\<close>

theorem primary_down_reports_zero:
  "map supply (fst (fetchEthereumSupplies (scripted primary_down Rejected Rejected) CONFIG ethTokens start))
     = [''0'', ''0'', ''0'', ''0'', ''0'']
   \<and> requested (snd (fetchEthereumSupplies (scripted primary_down Rejected Rejected) CONFIG ethTokens start))
     = replicate 10 (ETH_RPC CONFIG)
   \<and> supply (fst (fetchSingleSupply (scripted primary_down Rejected Rejected) (ethTokens ! 0)
        (ETH_RPC_FALLBACK CONFIG) start)) = ''1.5''"
proof -
  let ?rt = "scripted primary_down Rejected Rejected"
  have one: "fetchTokenSupply ?rt CONFIG token w =
      (eth_zero token, w\<lparr> requested := requested w @ [ETH_RPC CONFIG, ETH_RPC CONFIG] \<rparr>)" for token w
    by (subst fetchTokenSupply_primary_only [OF attempts_CONFIG]) (simp add: eth_eval CONFIG_def)
  have "fetchEthereumSupplies ?rt CONFIG ethTokens start =
      (map eth_zero ethTokens, \<lparr> requested = replicate 10 (ETH_RPC CONFIG), sleeps = [] \<rparr>)"
    by (simp add: fetchEthereumSupplies_def ethTokens_def one start_def replicate_numeral)
  moreover have "map supply (map eth_zero ethTokens) = [''0'', ''0'', ''0'', ''0'', ''0'']"
    by (simp add: ethTokens_def eth_zero_def)
  moreover have "supply (fst (fetchSingleSupply ?rt (ethTokens ! 0) (ETH_RPC_FALLBACK CONFIG) start)) = ''1.5''"
    by (simp add: eth_eval CONFIG_def formatUnits_eval)
  ultimately show ?thesis by simp
qed

text \<open>
  Claim C2, on the code. The Solana endpoint answers HTTP 503 to every request.
  \<open>fetchSolanaSupplies\<close> makes three requests, sleeps 1000 and 2000 ms between them and
  then throws \<open>HTTP 503\<close>: it returns no list.
\<close>

theorem solana_outage_throws:
  "fetchSolanaSupplies (scripted primary_down (Response False 503 None) Rejected) CONFIG solTokens start
     = (Inl (HttpError 503),
        \<lparr> requested = [SOL_RPC CONFIG, SOL_RPC CONFIG, SOL_RPC CONFIG], sleeps = [1000, 2000] \<rparr>)"
  by (simp add: fetchSolanaSupplies_def solana_attempt_def ok_json_of_def withRetry_def
      withRetry_loop.simps scripted_def start_def CONFIG_def)

lemma one_missing_answer:
  "fetch_getMultipleAccounts (scripted primary_down (answers (Some one_missing)) Rejected)
      (SOL_RPC CONFIG) (map sol_mint solTokens) start
     = (Response True 200 (Some (Value (Some one_missing))),
        \<lparr> requested = [SOL_RPC CONFIG], sleeps = [] \<rparr>)"
  by (simp add: scripted_def answers_def start_def)


theorem readers_keep_positions_witness:
  "map symbol (fst (fetchEthereumSupplies (scripted primary_down (answers (Some one_missing)) Rejected)
       CONFIG ethTokens start)) = [''wBTC'', ''renBTC'', ''tBTCv1'', ''tBTCv2'', ''cbBTC'']
   \<and> (\<exists>out. fst (fetchSolanaSupplies (scripted primary_down (answers (Some one_missing)) Rejected)
          CONFIG solTokens start) = Inr out
        \<and> map symbol out = [''wBTC'', ''renBTC'', ''pBTC'', ''cbBTC'', ''zBTC'', ''tBTC'']
        \<and> length out = 6)"
proof -
  let ?rt = "scripted primary_down (answers (Some one_missing)) Rejected"
  note k = readers_keep_positions [where rt = ?rt and cfg = CONFIG and tokens = ethTokens
      and stokens = solTokens and w = start]
  from solana_first_answer [OF attempts_CONFIG one_missing_answer]
  obtain out where out: "fst (fetchSolanaSupplies ?rt CONFIG solTokens start) = Inr out"
    by simp
  with k have "map symbol out = map sol_symbol solTokens" "length out = length solTokens"
    by blast+
  moreover from k have "map symbol (fst (fetchEthereumSupplies ?rt CONFIG ethTokens start))
      = map eth_symbol ethTokens"
    by blast
  ultimately show ?thesis
    using out by (simp add: solTokens_def ethTokens_def)
qed


text \<open>
  Claim C7, on the code. A well-formed 82-byte blob with amount 5 and decimals byte 0 is
  read with 8 decimal places, as \<open>0.00000005\<close>, where 0 decimal places give \<open>5\<close>:
  \<open>data[44] || 8\<close> takes the byte 0 for a missing one, so the decimals bytes 0 and 8 are
  read alike.
\<close>

theorem zero_decimals_read_as_eight:
  "fetchSolanaSupplies
      (scripted primary_down (answers (Some [AccountData (mint_blob [5, 0, 0, 0, 0, 0, 0, 0] 0)])) Rejected)
      CONFIG [solTokens ! 0] start
     = (Inr [(sol_zero (solTokens ! 0))\<lparr> supply := ''0.00000005'' \<rparr>],
        \<lparr> requested = [SOL_RPC CONFIG], sleeps = [] \<rparr>)
   \<and> formatUnits 5 0 = ''5''
   \<and> decimals_of (mint_blob [5, 0, 0, 0, 0, 0, 0, 0] 8) = decimals_of (mint_blob [5, 0, 0, 0, 0, 0, 0, 0] 0)"
proof -
  let ?blob = "mint_blob [5, 0, 0, 0, 0, 0, 0, 0] 0"
  let ?rt = "scripted primary_down (answers (Some [AccountData ?blob])) Rejected"
  have "fetch_getMultipleAccounts ?rt (SOL_RPC CONFIG) (map sol_mint [solTokens ! 0]) start
     = (Response True 200 (Some (Value (Some [AccountData ?blob]))),
        \<lparr> requested = [SOL_RPC CONFIG], sleeps = [] \<rparr>)"
    by (simp add: scripted_def answers_def start_def)
  from solana_first_answer [OF attempts_CONFIG this]
  have "fetchSolanaSupplies ?rt CONFIG [solTokens ! 0] start
     = (Inr [solanaTokenSupply [AccountData ?blob] (solTokens ! 0) 0],
        \<lparr> requested = [SOL_RPC CONFIG], sleeps = [] \<rparr>)"
    by simp
  moreover have "read_amount ?blob 0 0 = Inr 5"
    by (simp add: read_amount_ok mint_blob_length mint_blob_amount le_bytes_value_def)
  then have "solanaTokenSupply [AccountData ?blob] (solTokens ! 0) 0
      = (sol_zero (solTokens ! 0))\<lparr> supply := formatUnits 5 (decimals_of ?blob) \<rparr>"
    by (simp add: solanaTokenSupply_def account_at_def)
  moreover have d: "decimals_of (mint_blob a 0) = 8" "decimals_of (mint_blob a 8) = 8"
    if "length a = 8" for a
    using that by (simp_all add: decimals_of_byte mint_blob_length mint_blob_decimals)
  moreover have "formatUnits 5 8 = ''0.00000005''"
    by (simp add: formatUnits_eval replicate_numeral)
  moreover have "formatUnits 5 0 = ''5''"
    by (simp add: formatUnits_eval)
  ultimately show ?thesis by simp
qed

section \<open>The Bitcoin reference reader\<close>

lemma withRetry_loop_all_fail:
  assumes "\<And>w0. \<exists>e. fst (fn w0) = Inl e"
  shows "\<exists>e. fst (withRetry_loop fn sl attempts delay i w) = Inl e"
proof (induction "nat (attempts - i)" arbitrary: i w)
  case 0
  then have "\<not> i < attempts" by simp
  then show ?case by (simp add: withRetry_loop_exhausted)
next
  case (Suc k)
  then have lt: "i < attempts" by simp
  from assms [of w] obtain e where "fst (fn w) = Inl e" ..
  then have f: "fn w = (Inl e, snd (fn w))"
    by (simp add: prod_eq_iff)
  show ?case
  proof (cases "i = attempts - 1")
    case True
    from withRetry_loop_last_failure [where fn = fn and w = w, OF this f] show ?thesis by simp
  next
    case False
    with lt have "i < attempts - 1" by simp
    note step = withRetry_loop_retry [where fn = fn and w = w, OF this f]
    have "k = nat (attempts - (i + 1))"
      using Suc.hyps(2) by simp
    from Suc.hyps(1) [OF this] step show ?thesis by simp
  qed
qed

lemma withRetry_all_fail:
  "(\<And>w0. \<exists>e. fst (fn w0) = Inl e) \<Longrightarrow> \<exists>e. fst (withRetry fn sl attempts delay w) = Inl e"
  unfolding withRetry_def by (rule withRetry_loop_all_fail)

lemma fetchBitcoinSupply_cases:
  "fetchBitcoinSupply rt cfg w =
     (case bitcoinSupply_body rt cfg w of (r, w') \<Rightarrow> (Inr (case r of Inl e \<Rightarrow> ''0'' | Inr s \<Rightarrow> s), w'))"
  by (simp add: fetchBitcoinSupply_def split: prod.splits sum.splits)


lemma bitcoin_call_failure:
  assumes "withRetry (bitcoin_attempt rt cfg) (sleep rt) (RETRY_ATTEMPTS cfg) (RETRY_DELAY cfg) w = (Inl e, w')"
  shows "fetchBitcoinSupply rt cfg w = (Inr ''0'', w')"
  using assms by (simp add: fetchBitcoinSupply_def bitcoinSupply_body_def)

lemma bitcoin_invalid_figure:
  assumes "withRetry (bitcoin_attempt rt cfg) (sleep rt) (RETRY_ATTEMPTS cfg) (RETRY_DELAY cfg) w
             = (Inr (Value c), w')"
    and "c = NotNumber \<or> c = Circulation NegInfinity \<or> c = Circulation PosInfinity
         \<or> (\<exists>q. c = Circulation (Finite q) \<and> (q < 0 \<or> 21000000 * 10 ^ 8 < q))"
  shows "fetchBitcoinSupply rt cfg w = (Inr ''0'', w')"
  using assms
  by (auto simp: fetchBitcoinSupply_def bitcoinSupply_body_def number_negative_def
      exceeds_max_supply_def)

lemma fetchBitcoinSupply_returns: "\<exists>s. fst (fetchBitcoinSupply rt cfg w) = Inr s"
  by (simp add: fetchBitcoinSupply_cases split: prod.splits)

text \<open>
  Claim C9. \<open>fetchBitcoinSupply\<close> always returns a string and never throws. It returns
  \<open>0\<close> whenever the retried call fails, in particular when every attempt fails, and
  whenever the call yields a reply whose circulation figure is not a number, is negative
  (also minus infinity), or exceeds \<open>21000000 * 10 ^ 8\<close> (also infinity).
\<close>

theorem fetchBitcoinSupply_absorbs_failures:
  "(\<exists>s. fst (fetchBitcoinSupply rt cfg w) = Inr s)
   \<and> (\<forall>e w'. withRetry (bitcoin_attempt rt cfg) (sleep rt) (RETRY_ATTEMPTS cfg) (RETRY_DELAY cfg) w
                = (Inl e, w') \<longrightarrow>
          fetchBitcoinSupply rt cfg w = (Inr ''0'', w'))
   \<and> ((\<forall>w0. \<exists>e. fst (bitcoin_attempt rt cfg w0) = Inl e) \<longrightarrow>
          fst (fetchBitcoinSupply rt cfg w) = Inr ''0'')
   \<and> (\<forall>c w'. withRetry (bitcoin_attempt rt cfg) (sleep rt) (RETRY_ATTEMPTS cfg) (RETRY_DELAY cfg) w
                = (Inr (Value c), w')
              \<and> (c = NotNumber \<or> c = Circulation NegInfinity \<or> c = Circulation PosInfinity
                   \<or> (\<exists>q. c = Circulation (Finite q) \<and> (q < 0 \<or> 21000000 * 10 ^ 8 < q)))
          \<longrightarrow> fetchBitcoinSupply rt cfg w = (Inr ''0'', w'))"
proof -
  have "fst (fetchBitcoinSupply rt cfg w) = Inr ''0''"
    if "\<forall>w0. \<exists>e. fst (bitcoin_attempt rt cfg w0) = Inl e"
  proof -
    from that have "\<And>w0. \<exists>e. fst (bitcoin_attempt rt cfg w0) = Inl e" by blast
    from withRetry_all_fail [where fn = "bitcoin_attempt rt cfg", OF this]
    obtain e where "fst (withRetry (bitcoin_attempt rt cfg) (sleep rt) (RETRY_ATTEMPTS cfg)
        (RETRY_DELAY cfg) w) = Inl e"
      by blast
    then have "withRetry (bitcoin_attempt rt cfg) (sleep rt) (RETRY_ATTEMPTS cfg) (RETRY_DELAY cfg) w
        = (Inl e, snd (withRetry (bitcoin_attempt rt cfg) (sleep rt) (RETRY_ATTEMPTS cfg)
        (RETRY_DELAY cfg) w))"
      by (simp add: prod_eq_iff)
    from bitcoin_call_failure [OF this] show ?thesis by simp
  qed
  with fetchBitcoinSupply_returns [of rt cfg w] show ?thesis
    by (auto intro: bitcoin_call_failure bitcoin_invalid_figure)
qed

theorem fetchBitcoinSupply_absorbs_failures_witness:
  "fetchBitcoinSupply (scripted primary_down Rejected (Response False 500 None)) CONFIG start
     = (Inr ''0'', \<lparr> requested = [BTC_API CONFIG, BTC_API CONFIG, BTC_API CONFIG],
                    sleeps = [1000, 2000] \<rparr>)
   \<and> fetchBitcoinSupply (scripted primary_down Rejected (answers (Circulation (Finite (- 1))))) CONFIG start
     = (Inr ''0'', \<lparr> requested = [BTC_API CONFIG], sleeps = [] \<rparr>)
   \<and> fetchBitcoinSupply (scripted primary_down Rejected (answers (Circulation (Finite 2100000000000001))))
        CONFIG start
     = (Inr ''0'', \<lparr> requested = [BTC_API CONFIG], sleeps = [] \<rparr>)
   \<and> fetchBitcoinSupply (scripted primary_down Rejected (answers NotNumber)) CONFIG start
     = (Inr ''0'', \<lparr> requested = [BTC_API CONFIG], sleeps = [] \<rparr>)"
proof -
  let ?down = "scripted primary_down Rejected (Response False 500 None)"
  let ?tries = "\<lambda>rt. withRetry (bitcoin_attempt rt CONFIG) (sleep rt) (RETRY_ATTEMPTS CONFIG)
      (RETRY_DELAY CONFIG) start"
  let ?once = "\<lparr> requested = [BTC_API CONFIG], sleeps = [] \<rparr>"
  have down: "?tries ?down = (Inl (HttpError 500),
      \<lparr> requested = [BTC_API CONFIG, BTC_API CONFIG, BTC_API CONFIG], sleeps = [1000, 2000] \<rparr>)"
    by (simp add: bitcoin_attempt_def ok_json_of_def withRetry_def withRetry_loop.simps
        scripted_def start_def CONFIG_def)
  have up: "?tries (scripted primary_down Rejected (answers c)) = (Inr (Value c), ?once)" for c
    by (simp add: bitcoin_attempt_def ok_json_of_def withRetry_def withRetry_loop.simps
        scripted_def start_def CONFIG_def answers_def)
  note t = fetchBitcoinSupply_absorbs_failures [where cfg = CONFIG and w = start]
  from t [where rt = ?down] down
  have "fetchBitcoinSupply ?down CONFIG start = (Inr ''0'',
      \<lparr> requested = [BTC_API CONFIG, BTC_API CONFIG, BTC_API CONFIG], sleeps = [1000, 2000] \<rparr>)"
    by blast
  moreover have "fetchBitcoinSupply (scripted primary_down Rejected (answers c)) CONFIG start
      = (Inr ''0'', ?once)"
    if "c = NotNumber \<or> c = Circulation NegInfinity \<or> c = Circulation PosInfinity
        \<or> (\<exists>q. c = Circulation (Finite q) \<and> (q < 0 \<or> 21000000 * 10 ^ 8 < q))" for c
    using t [where rt = "scripted primary_down Rejected (answers c)"] up [of c] that by blast
  ultimately show ?thesis by simp
qed

section \<open>The totals\<close>












end
